theory Spec2Isabelle
  imports Main "HOL-Library.Sublist"
begin

section \<open>The Python values and exceptions the function handles\<close>

text \<open>
  The program is one Python 3 function, \<^verbatim>\<open>IrActionsReport._run_wkhtmltopdf\<close>
  (\<^verbatim>\<open>wkhtmltopdf_log/models/ir_actions_report.py\<close>), with the module-level helper
  \<^verbatim>\<open>_get_wkhtmltopdf_bin\<close>. A byte string (\<^verbatim>\<open>bytes\<close>) and a text string
  (\<^verbatim>\<open>str\<close>, always ASCII here) are both acc of \<^typ>\<open>char\<close>; the datatype
  \<open>pyval\<close> keeps them apart where Python's formatting does.
\<close>

type_synonym bytes = "char list"

datatype pyval = PStr string | PBytes bytes | PInt int

datatype exn =
    UserError string
  | IOError string
  | OSError string
  | FileExistsError string
  | FileNotFoundError string
  | TypeError string
  | ValueError string

subsection \<open>\<^verbatim>\<open>str(int)\<close>\<close>

definition digit_char :: "nat \<Rightarrow> char" where
  "digit_char d = ''0123456789'' ! d"

function str_nat :: "nat \<Rightarrow> string" where
  "str_nat n = (if n < 10 then [digit_char n] else str_nat (n div 10) @ [digit_char (n mod 10)])"
  by pat_completeness auto
termination
  by (relation "measure (\<lambda>n. n)") auto

declare str_nat.simps [simp del]

definition str_int :: "int \<Rightarrow> string" where
  "str_int i = (if i < 0 then CHR ''-'' # str_nat (nat (- i)) else str_nat (nat i))"

subsection \<open>\<^verbatim>\<open>str(bytes)\<close>: the bytes literal\<close>

text \<open>
  In Python 3, \<^verbatim>\<open>"%s" % b\<close> for a bytes object \<^verbatim>\<open>b\<close> is \<^verbatim>\<open>str(b)\<close>, which is
  \<^verbatim>\<open>repr(b)\<close>: the letter b, a quote, the bytes with backslash, the quote, tab,
  newline, carriage return and every byte outside 0x20..0x7e escaped, and the quote
  again. The quote is the single quote unless the bytes hold a single quote and no
  double quote.
\<close>

definition BACKSLASH :: char where "BACKSLASH = CHR 0x5C"
definition SQUOTE :: char where "SQUOTE = CHR 0x27"
definition DQUOTE :: char where "DQUOTE = CHR 0x22"
definition TAB :: char where "TAB = CHR 0x09"
definition LF :: char where "LF = CHR 0x0A"
definition CR :: char where "CR = CHR 0x0D"

definition hex_digit :: "nat \<Rightarrow> char" where
  "hex_digit d = ''0123456789abcdef'' ! d"

definition escape_byte :: "char \<Rightarrow> char \<Rightarrow> string" where
  "escape_byte quote c =
     (if c = quote \<or> c = BACKSLASH then [BACKSLASH, c]
      else if c = TAB then [BACKSLASH, CHR ''t'']
      else if c = LF then [BACKSLASH, CHR ''n'']
      else if c = CR then [BACKSLASH, CHR ''r'']
      else if (of_char c :: nat) < 32 \<or> 127 \<le> (of_char c :: nat)
        then [BACKSLASH, CHR ''x'', hex_digit (of_char c div 16), hex_digit (of_char c mod 16)]
      else [c])"

definition bytes_repr :: "bytes \<Rightarrow> string" where
  "bytes_repr b =
     (let quote = (if SQUOTE \<in> set b \<and> DQUOTE \<notin> set b then DQUOTE else SQUOTE)
      in [CHR ''b'', quote] @ concat (map (escape_byte quote) b) @ [quote])"

fun py_str :: "pyval \<Rightarrow> string" where
  "py_str (PStr s) = s"
| "py_str (PBytes b) = bytes_repr b"
| "py_str (PInt i) = str_int i"

subsection \<open>The \<^verbatim>\<open>%\<close> operator on a template\<close>

text \<open>
  \<^verbatim>\<open>template % args\<close> for the conversions the program's templates use: \<^verbatim>\<open>%s\<close>
  takes the next argument through \<^verbatim>\<open>str\<close>, \<^verbatim>\<open>%d\<close> wants an integer, \<^verbatim>\<open>%%\<close> is a
  percent sign. Too few or too many arguments raise TypeError, a percent sign at the
  end raises ValueError, as in Python; the first error from the left is the one
  raised. Any other conversion is outside this fragment and is reported as a
  ValueError.
\<close>

fun cons_ok :: "char \<Rightarrow> exn + string \<Rightarrow> exn + string" where
  "cons_ok c (Inl e) = Inl e"
| "cons_ok c (Inr s) = Inr (c # s)"

fun append_ok :: "string \<Rightarrow> exn + string \<Rightarrow> exn + string" where
  "append_ok p (Inl e) = Inl e"
| "append_ok p (Inr s) = Inr (p @ s)"

fun py_mod :: "string \<Rightarrow> pyval list \<Rightarrow> exn + string" where
  "py_mod [] [] = Inr []"
| "py_mod [] (a # as) = Inl (TypeError ''not all arguments converted during string formatting'')"
| "py_mod [c] as =
     (if c = CHR ''%'' then Inl (ValueError ''incomplete format'')
      else cons_ok c (py_mod [] as))"
| "py_mod (c # d # ds) as =
     (if c \<noteq> CHR ''%'' then cons_ok c (py_mod (d # ds) as)
      else if d = CHR ''%'' then cons_ok c (py_mod ds as)
      else if d = CHR ''s'' then
        (case as of
           [] \<Rightarrow> Inl (TypeError ''not enough arguments for format string'')
         | a # as' \<Rightarrow> append_ok (py_str a) (py_mod ds as'))
      else if d = CHR ''d'' then
        (case as of
           [] \<Rightarrow> Inl (TypeError ''not enough arguments for format string'')
         | PInt i # as' \<Rightarrow> append_ok (str_int i) (py_mod ds as')
         | _ # as' \<Rightarrow> Inl (TypeError ''%d format: a number is required''))
      else Inl (ValueError ''unsupported format character''))"

subsection \<open>\<^verbatim>\<open>bytes.splitlines()\<close> and \<^verbatim>\<open>err[-1000:]\<close>\<close>

text \<open>
  A bytes object is split at LF, CR and CR LF; the line ends are dropped, and a last
  line without a line end is kept when it is not empty.
\<close>

fun splitlines_from :: "bytes \<Rightarrow> bytes \<Rightarrow> bytes list" where
  "splitlines_from cur [] = (if cur = [] then [] else [cur])"
| "splitlines_from cur [c] =
     (if c = LF \<or> c = CR then [cur] else [cur @ [c]])"
| "splitlines_from cur (c # d # ds) =
     (if c = CR \<and> d = LF then cur # splitlines_from [] ds
      else if c = LF \<or> c = CR then cur # splitlines_from [] (d # ds)
      else splitlines_from (cur @ [c]) (d # ds))"

definition splitlines :: "bytes \<Rightarrow> bytes list" where
  "splitlines b = splitlines_from [] b"

text \<open>\<^verbatim>\<open>b[-k:]\<close> for \<open>k > 0\<close>: the last \<open>k\<close> bytes, all of them when there are fewer.\<close>

definition last_bytes :: "nat \<Rightarrow> bytes \<Rightarrow> bytes" where
  "last_bytes k b = (if length b \<le> k then b else drop (length b - k) b)"

section \<open>The world the function acts on\<close>

text \<open>
  The function's effects are on the file system (temporary files), on the logger and
  on the supply of random names that \<^verbatim>\<open>tempfile\<close> draws from. The state is passed
  explicitly, and every operation returns the state next to its value or exception:
  an exception leaves the state as it was when it was raised.
\<close>

datatype level = INFO | WARNING | ERROR

type_synonym filesystem = "string \<Rightarrow> bytes option"

record world =
  files :: filesystem
  names :: "string list"
  logged :: "(level \<times> string) list"

text \<open>
  What the function calls and this repository does not define: the methods
  \<^verbatim>\<open>get_paperformat\<close> and \<^verbatim>\<open>_build_wkhtmltopdf_args\<close> of the model it inherits,
  Odoo's \<^verbatim>\<open>find_in_path\<close> and translation function \<^verbatim>\<open>_\<close>, the temporary
  directory, the subprocess (\<^verbatim>\<open>Popen\<close> and \<^verbatim>\<open>communicate\<close>: from the command line
  and the file system to the standard output, the standard error, the return code and
  the file system it leaves, or an exception when it cannot be started), and the
  paths the operating system refuses to unlink.
\<close>

record ('pf, 'spa) env =
  get_paperformat :: "'pf"
  build_wkhtmltopdf_args :: "'pf \<Rightarrow> bool \<Rightarrow> 'spa option \<Rightarrow> bool \<Rightarrow> string list"
  find_in_path :: "string \<Rightarrow> exn + string"
  translate :: "string \<Rightarrow> string"
  gettempdir :: string
  popen_communicate :: "string list \<Rightarrow> filesystem \<Rightarrow> exn + (bytes \<times> bytes \<times> int \<times> filesystem)"
  unlink_denied :: "string \<Rightarrow> bool"

subsection \<open>\<^verbatim>\<open>tempfile.mkstemp\<close>, writing, reading, unlinking, logging\<close>

text \<open>
  \<^verbatim>\<open>mkstemp(suffix, prefix)\<close> tries the candidate names in turn and creates, empty,
  the first file \<^verbatim>\<open>dir/prefix + name + suffix\<close> that does not exist; when no
  candidate is left it raises FileExistsError. The descriptor it returns is
  represented by the path; writing to the file just created and closing it do not
  fail here.
\<close>

fun mkstemp_inner :: "string \<Rightarrow> string \<Rightarrow> string \<Rightarrow> filesystem \<Rightarrow> string list \<Rightarrow> (string \<times> string list) option" where
  "mkstemp_inner dir sfx pfx fs [] = None"
| "mkstemp_inner dir sfx pfx fs (name # rest) =
     (let file = dir @ ''/'' @ pfx @ name @ sfx
      in if fs file \<noteq> None then mkstemp_inner dir sfx pfx fs rest
         else Some (file, rest))"

definition mkstemp :: "string \<Rightarrow> string \<Rightarrow> string \<Rightarrow> world \<Rightarrow> (exn + string) \<times> world" where
  "mkstemp dir sfx pfx w =
     (case mkstemp_inner dir sfx pfx (files w) (names w) of
        None \<Rightarrow> (Inl (FileExistsError ''No usable temporary file name found''), w\<lparr>names := []\<rparr>)
      | Some (file, rest) \<Rightarrow> (Inr file, w\<lparr>files := (files w)(file \<mapsto> []), names := rest\<rparr>))"

text \<open>\<^verbatim>\<open>with closing(os.fdopen(fd, "wb")) as f: f.write(data)\<close> on the file just created.\<close>

definition write_file :: "string \<Rightarrow> bytes \<Rightarrow> world \<Rightarrow> world" where
  "write_file file data w = w\<lparr>files := (files w)(file \<mapsto> data)\<rparr>"

text \<open>\<^verbatim>\<open>with open(path, "rb") as f: f.read()\<close>.\<close>

definition read_file :: "string \<Rightarrow> world \<Rightarrow> exn + bytes" where
  "read_file file w =
     (case files w file of
        None \<Rightarrow> Inl (FileNotFoundError file)
      | Some content \<Rightarrow> Inr content)"

text \<open>
  \<^verbatim>\<open>os.unlink(path)\<close>: FileNotFoundError when the file is not there, another OSError
  when the system refuses; otherwise the file is gone.
\<close>

definition unlink :: "('pf, 'spa) env \<Rightarrow> string \<Rightarrow> world \<Rightarrow> (exn + unit) \<times> world" where
  "unlink env file w =
     (if files w file = None then (Inl (FileNotFoundError file), w)
      else if unlink_denied env file then (Inl (OSError file), w)
      else (Inr (), w\<lparr>files := (files w)(file := None)\<rparr>))"

text \<open>
  What \<^verbatim>\<open>except (OSError, IOError)\<close> catches: in Python 3 IOError is OSError, and
  FileExistsError and FileNotFoundError are subclasses of it.
\<close>

fun is_OSError :: "exn \<Rightarrow> bool" where
  "is_OSError (OSError m) = True"
| "is_OSError (IOError m) = True"
| "is_OSError (FileExistsError m) = True"
| "is_OSError (FileNotFoundError m) = True"
| "is_OSError (UserError m) = False"
| "is_OSError (TypeError m) = False"
| "is_OSError (ValueError m) = False"

definition logger :: "level \<Rightarrow> string \<Rightarrow> world \<Rightarrow> world" where
  "logger lvl msg w = w\<lparr>logged := logged w @ [(lvl, msg)]\<rparr>"

section \<open>\<^verbatim>\<open>_run_wkhtmltopdf\<close>\<close>

text \<open>\<^verbatim>\<open>_get_wkhtmltopdf_bin\<close> (lines 13-14).\<close>

definition get_wkhtmltopdf_bin :: "('pf, 'spa) env \<Rightarrow> exn + string" where
  "get_wkhtmltopdf_bin env = find_in_path env ''wkhtmltopdf''"

text \<open>The local variables that staging leaves for the rest of the function.\<close>

record staged =
  files_command_args :: "string list"
  temporary_files :: "string list"
  paths :: "string list"
  pdf_report_path :: string

text \<open>
  Lines 51-56, \<^verbatim>\<open>if header:\<close>. The argument is None (the default) or a bytes
  object; a bytes object is true when it is not empty. The block gets and returns the
  lists \<^verbatim>\<open>files_command_args\<close> and \<^verbatim>\<open>temporary_files\<close>.
\<close>

definition stage_header :: "string \<Rightarrow> bytes option \<Rightarrow> string list \<times> string list \<Rightarrow> world \<Rightarrow> (exn + string list \<times> string list) \<times> world" where
  "stage_header dir header acc w =
     (case header of
        None \<Rightarrow> (Inr acc, w)
      | Some h \<Rightarrow>
          if h = [] then (Inr acc, w)
          else
            (case mkstemp dir ''.html'' ''report.header.tmp.'' w of
               (Inl e, w1) \<Rightarrow> (Inl e, w1)
             | (Inr head_file_path, w1) \<Rightarrow>
                 (Inr (fst acc @ [''--header-html'', head_file_path], snd acc @ [head_file_path]),
                  write_file head_file_path h w1)))"

text \<open>Lines 57-62, \<^verbatim>\<open>if footer:\<close>.\<close>

definition stage_footer :: "string \<Rightarrow> bytes option \<Rightarrow> string list \<times> string list \<Rightarrow> world \<Rightarrow> (exn + string list \<times> string list) \<times> world" where
  "stage_footer dir footer acc w =
     (case footer of
        None \<Rightarrow> (Inr acc, w)
      | Some f \<Rightarrow>
          if f = [] then (Inr acc, w)
          else
            (case mkstemp dir ''.html'' ''report.footer.tmp.'' w of
               (Inl e, w1) \<Rightarrow> (Inl e, w1)
             | (Inr foot_file_path, w1) \<Rightarrow>
                 (Inr (fst acc @ [''--footer-html'', foot_file_path], snd acc @ [foot_file_path]),
                  write_file foot_file_path f w1)))"

text \<open>
  Lines 64-71, the loop \<^verbatim>\<open>for i, body in enumerate(bodies)\<close>, from index \<open>i\<close> on, with
  the lists \<^verbatim>\<open>paths\<close> and \<^verbatim>\<open>temporary_files\<close> it appends to.
\<close>

fun stage_bodies :: "string \<Rightarrow> nat \<Rightarrow> bytes list \<Rightarrow> string list \<times> string list \<Rightarrow> world \<Rightarrow> (exn + string list \<times> string list) \<times> world" where
  "stage_bodies dir i [] acc w = (Inr acc, w)"
| "stage_bodies dir i (body # bodies) acc w =
     (case mkstemp dir ''.html'' (''report.body.tmp.'' @ str_int (int i) @ ''.'') w of
        (Inl e, w1) \<Rightarrow> (Inl e, w1)
      | (Inr body_file_path, w1) \<Rightarrow>
          stage_bodies dir (Suc i) bodies
            (fst acc @ [body_file_path], snd acc @ [body_file_path])
            (write_file body_file_path body w1))"

text \<open>Lines 49-75: everything before the \<^verbatim>\<open>try\<close>.\<close>

definition stage :: "string \<Rightarrow> bytes list \<Rightarrow> bytes option \<Rightarrow> bytes option \<Rightarrow> world \<Rightarrow> (exn + staged) \<times> world" where
  "stage dir bodies header footer w =
     (case stage_header dir header ([], []) w of
        (Inl e, w1) \<Rightarrow> (Inl e, w1)
      | (Inr acc1, w1) \<Rightarrow>
     (case stage_footer dir footer acc1 w1 of
        (Inl e, w2) \<Rightarrow> (Inl e, w2)
      | (Inr acc2, w2) \<Rightarrow>
     (case stage_bodies dir 0 bodies ([], snd acc2) w2 of
        (Inl e, w3) \<Rightarrow> (Inl e, w3)
      | (Inr acc3, w3) \<Rightarrow>
     (case mkstemp dir ''.pdf'' ''report.tmp.'' w3 of
        (Inl e, w4) \<Rightarrow> (Inl e, w4)
      | (Inr report_path, w4) \<Rightarrow>
          (Inr \<lparr>files_command_args = fst acc2,
                temporary_files = snd acc3 @ [report_path],
                paths = fst acc3,
                pdf_report_path = report_path\<rparr>, w4)))))"

text \<open>Line 78, the command line.\<close>

definition wkhtmltopdf_command :: "string \<Rightarrow> string list \<Rightarrow> staged \<Rightarrow> string list" where
  "wkhtmltopdf_command bin command_args st =
     [bin] @ command_args @ files_command_args st @ paths st @ [pdf_report_path st]"

text \<open>Lines 85-89: one INFO record per line of the output.\<close>

fun log_lines :: "string \<Rightarrow> bytes list \<Rightarrow> world \<Rightarrow> world" where
  "log_lines tag [] w = w"
| "log_lines tag (line # rest) w = log_lines tag rest (logger INFO (tag @ py_str (PBytes line)) w)"

definition MEMORY_MESSAGE :: string where
  "MEMORY_MESSAGE = ''Wkhtmltopdf failed (error code: %s). Memory limit too low or maximum file number of subprocess reached. Message : %s''"

definition FAILED_MESSAGE :: string where
  "FAILED_MESSAGE = ''Wkhtmltopdf failed (error code: %s). Message: %s''"

text \<open>
  Lines 77-104, the \<^verbatim>\<open>try\<close> block. Its handler \<^verbatim>\<open>except: raise\<close> raises again
  whatever the block raised, so an exception leaves the block as it is. \<^verbatim>\<open>Popen\<close> is
  called without a text mode, so \<^verbatim>\<open>out\<close> and \<^verbatim>\<open>err\<close> are bytes objects; a literal
  template that ends in its one \<^verbatim>\<open>%s\<close> or \<^verbatim>\<open>%d\<close> is written as the text before it
  followed by the argument's \<^verbatim>\<open>str\<close>. The message templates go through the
  translation first and are formatted by \<open>py_mod\<close>.
\<close>

definition invoke :: "('pf, 'spa) env \<Rightarrow> string list \<Rightarrow> staged \<Rightarrow> world \<Rightarrow> (exn + unit) \<times> world" where
  "invoke env command_args st w =
     (case get_wkhtmltopdf_bin env of
        Inl e \<Rightarrow> (Inl e, w)
      | Inr bin \<Rightarrow>
          (let wkhtmltopdf = wkhtmltopdf_command bin command_args st;
               w1 = logger INFO (''[[ Wkhtmltopdf ]] command: '' @ concat wkhtmltopdf) w
           in case popen_communicate env wkhtmltopdf (files w1) of
                Inl e \<Rightarrow> (Inl e, w1)
              | Inr (out, err, returncode, fs) \<Rightarrow>
                  (let w2 = w1\<lparr>files := fs\<rparr>;
                       w3 = log_lines ''[[ Wkhtmltopdf ]] out: '' (splitlines out) w2;
                       w4 = log_lines ''[[ Wkhtmltopdf ]] err: '' (splitlines err) w3;
                       w5 = logger INFO (''[[ Wkhtmltopdf ]] returncode: '' @ str_int returncode) w4
                   in if returncode \<noteq> 0 \<and> returncode \<noteq> 1 then
                        (let message =
                               (if returncode = - 11 then translate env MEMORY_MESSAGE
                                else translate env FAILED_MESSAGE)
                         in case py_mod message [PStr (str_int returncode), PBytes (last_bytes 1000 err)] of
                              Inl e \<Rightarrow> (Inl e, w5)
                            | Inr text \<Rightarrow> (Inl (UserError text), w5))
                      else if err \<noteq> [] then
                        (Inr (), logger WARNING (''wkhtmltopdf: '' @ py_str (PBytes err)) w5)
                      else (Inr (), w5))))"

text \<open>
  Lines 110-114, the cleanup loop: an OSError of \<^verbatim>\<open>unlink\<close> is caught and logged,
  any other exception would leave the loop.
\<close>

fun cleanup :: "('pf, 'spa) env \<Rightarrow> string list \<Rightarrow> world \<Rightarrow> (exn + unit) \<times> world" where
  "cleanup env [] w = (Inr (), w)"
| "cleanup env (temporary_file # rest) w =
     (case unlink env temporary_file w of
        (Inr u, w1) \<Rightarrow> cleanup env rest w1
      | (Inl e, w1) \<Rightarrow>
          if is_OSError e
          then cleanup env rest (logger ERROR (''Error when trying to remove file '' @ temporary_file) w1)
          else (Inl e, w1))"

text \<open>The function (lines 21-116).\<close>

definition run_wkhtmltopdf ::
  "('pf, 'spa) env \<Rightarrow> bytes list \<Rightarrow> bytes option \<Rightarrow> bytes option \<Rightarrow> bool \<Rightarrow> 'spa option \<Rightarrow> bool \<Rightarrow> world
     \<Rightarrow> (exn + bytes) \<times> world" where
  "run_wkhtmltopdf env bodies header footer landscape specific_paperformat_args set_viewport_size w =
     (let paperformat_id = get_paperformat env;
          command_args = build_wkhtmltopdf_args env paperformat_id landscape
                           specific_paperformat_args set_viewport_size
      in case stage (gettempdir env) bodies header footer w of
           (Inl e, w1) \<Rightarrow> (Inl e, w1)
         | (Inr st, w1) \<Rightarrow>
        (case invoke env command_args st w1 of
           (Inl e, w2) \<Rightarrow> (Inl e, w2)
         | (Inr u, w2) \<Rightarrow>
        (case read_file (pdf_report_path st) w2 of
           Inl e \<Rightarrow> (Inl e, w2)
         | Inr pdf_content \<Rightarrow>
        (case cleanup env (temporary_files st) w2 of
           (Inl e, w3) \<Rightarrow> (Inl e, w3)
         | (Inr u, w3) \<Rightarrow> (Inr pdf_content, w3)))))"

section \<open>Vocabulary for the statements\<close>

text \<open>
  Python's truth value of the \<^verbatim>\<open>header\<close> and \<^verbatim>\<open>footer\<close> arguments: None and the
  empty bytes object are false.
\<close>

definition truthy :: "bytes option \<Rightarrow> bool" where
  "truthy v = (case v of None \<Rightarrow> False | Some b \<Rightarrow> b \<noteq> [])"

text \<open>
  The step from \<open>w\<close> to \<open>w'\<close> created exactly the files \<open>new\<close>, each once, changed
  no other file and logged nothing.
\<close>

definition creates :: "world \<Rightarrow> world \<Rightarrow> string list \<Rightarrow> bool" where
  "creates w w' new =
     (distinct new \<and> (\<forall>p \<in> set new. files w p = None \<and> files w' p \<noteq> None)
      \<and> (\<forall>p. p \<notin> set new \<longrightarrow> files w' p = files w p) \<and> logged w' = logged w)"

text \<open>\<^verbatim>\<open>os.unlink(f)\<close> raises on the file system \<open>fs\<close>.\<close>

definition unlink_fails :: "('pf, 'spa) env \<Rightarrow> filesystem \<Rightarrow> string \<Rightarrow> bool" where
  "unlink_fails env fs f = (fs f = None \<or> unlink_denied env f)"

text \<open>
  A byte that the bytes literal shows as itself: printable ASCII other than the single
  quote and the backslash.
\<close>

definition plain_byte :: "char \<Rightarrow> bool" where
  "plain_byte c = (32 \<le> (of_char c :: nat) \<and> (of_char c :: nat) < 127 \<and> c \<noteq> SQUOTE \<and> c \<noteq> BACKSLASH)"

text \<open>
  An environment and a world to run the function in: the binary is found, nothing is
  translated, the subprocess writes four bytes to its last argument, prints nothing and
  returns 0, and every unlink is allowed. The variants below change the subprocess or
  the unlink.
\<close>

definition example_env :: "(unit, unit) env" where
  "example_env =
     \<lparr>get_paperformat = (),
      build_wkhtmltopdf_args = (\<lambda>pf landscape spa svs. [''--quiet'']),
      find_in_path = (\<lambda>name. Inr (''/usr/bin/'' @ name)),
      translate = (\<lambda>s. s),
      gettempdir = ''/tmp'',
      popen_communicate = (\<lambda>cmd fs. Inr ([], [], 0, fs(last cmd \<mapsto> ''%PDF''))),
      unlink_denied = (\<lambda>p. False)\<rparr>"

definition example_world :: world where
  "example_world = \<lparr>files = Map.empty, names = [''a'', ''b'', ''c'', ''d''], logged = []\<rparr>"

definition failing_process :: "int \<Rightarrow> bytes \<Rightarrow> string list \<Rightarrow> filesystem \<Rightarrow> exn + (bytes \<times> bytes \<times> int \<times> filesystem)" where
  "failing_process rc err cmd fs = Inr ([], err, rc, fs)"

text \<open>The system refuses to unlink the one path \<open>f\<close>.\<close>

definition deny_only :: "string \<Rightarrow> string \<Rightarrow> bool" where
  "deny_only f p = (p = f)"

text \<open>Variants of the example: the subprocess fails, or one unlink is refused.\<close>

definition fatal_env :: "int \<Rightarrow> bytes \<Rightarrow> (unit, unit) env" where
  "fatal_env rc err = example_env\<lparr>popen_communicate := failing_process rc err\<rparr>"

definition denying_env :: "string \<Rightarrow> (unit, unit) env" where
  "denying_env f = example_env\<lparr>unlink_denied := deny_only f\<rparr>"

text \<open>What staging leaves in the example, the world after it, and the file system the
  subprocess of the example leaves.\<close>

definition example_staged :: staged where
  "example_staged =
     \<lparr>files_command_args = [''--header-html'', ''/tmp/report.header.tmp.a.html''],
      temporary_files = [''/tmp/report.header.tmp.a.html'', ''/tmp/report.body.tmp.0.b.html'',
                         ''/tmp/report.tmp.c.pdf''],
      paths = [''/tmp/report.body.tmp.0.b.html''],
      pdf_report_path = ''/tmp/report.tmp.c.pdf''\<rparr>"

definition example_staged_world :: world where
  "example_staged_world =
     \<lparr>files = [''/tmp/report.header.tmp.a.html'' \<mapsto> ''h'',
               ''/tmp/report.body.tmp.0.b.html'' \<mapsto> ''x'',
               ''/tmp/report.tmp.c.pdf'' \<mapsto> []],
      names = [''d''], logged = []\<rparr>"

definition example_output :: filesystem where
  "example_output = (files example_staged_world)(''/tmp/report.tmp.c.pdf'' \<mapsto> ''%PDF'')"


section \<open>Lemmas on the operations\<close>

lemma creates_refl: "creates w w []"
  by (simp add: creates_def)

lemma creates_trans:
  assumes "creates w w1 n1" and "creates w1 w2 n2"
  shows "creates w w2 (n1 @ n2)"
proof -
  have disj: "set n1 \<inter> set n2 = {}"
    using assms unfolding creates_def by fastforce
  show ?thesis
    using assms disj unfolding creates_def by (auto; metis)
qed

lemma mkstemp_inner_Some:
  "mkstemp_inner dir sfx pfx fs ns = Some (file, rest) \<Longrightarrow>
     fs file = None \<and> prefix (dir @ ''/'' @ pfx) file \<and> suffix sfx file"
proof (induction ns)
  case Nil
  then show ?case by simp
next
  case (Cons name ns)
  show ?case
  proof (cases "fs (dir @ ''/'' @ pfx @ name @ sfx) = None")
    case True
    with Cons.prems have "file = dir @ ''/'' @ pfx @ name @ sfx" by simp
    with True show ?thesis by (simp add: suffix_def)
  next
    case False
    with Cons show ?thesis by simp
  qed
qed

lemma mkstemp_Inr:
  assumes "mkstemp dir sfx pfx w = (Inr file, w')"
  shows "files w file = None" and "files w' = (files w)(file \<mapsto> [])"
    and "logged w' = logged w" and "prefix (dir @ ''/'' @ pfx) file" and "suffix sfx file"
  using assms mkstemp_inner_Some [of dir sfx pfx "files w" "names w"]
  by (auto simp: mkstemp_def split: option.splits)

lemma write_temp_creates:
  assumes "mkstemp dir sfx pfx w = (Inr file, w1)"
  shows "creates w (write_file file data w1) [file]"
    and "files (write_file file data w1) file = Some data"
  using mkstemp_Inr [OF assms] by (auto simp: creates_def write_file_def)

lemma mkstemp_creates:
  assumes "mkstemp dir sfx pfx w = (Inr file, w1)"
  shows "creates w w1 [file]" and "files w1 file = Some []"
  using mkstemp_Inr [OF assms] by (auto simp: creates_def)

lemma creates_keeps: "creates w w' new \<Longrightarrow> files w p \<noteq> None \<Longrightarrow> files w' p = files w p"
  unfolding creates_def by metis

lemma creates_cons:
  assumes "creates w w1 [p]" and "creates w1 w2 new"
  shows "creates w w2 (p # new)"
  using creates_trans [OF assms] by simp

lemma stage_header_Inr:
  assumes "stage_header dir header (fca, tfs) w = (Inr (fca', tfs'), w1)"
  shows "\<exists>hs. fca' = fca @ concat (map (\<lambda>p. [''--header-html'', p]) hs) \<and> tfs' = tfs @ hs
           \<and> (if truthy header then (\<exists>p. hs = [p] \<and> files w1 p = header) else hs = [])
           \<and> (\<forall>p \<in> set hs. suffix ''.html'' p) \<and> creates w w1 hs"
proof (cases "truthy header")
  case False
  then have "stage_header dir header (fca, tfs) w = (Inr (fca, tfs), w)"
    by (auto simp: stage_header_def truthy_def split: option.splits)
  with assms False show ?thesis by (simp add: creates_refl)
next
  case True
  then obtain h where h: "header = Some h" "h \<noteq> []"
    by (auto simp: truthy_def split: option.splits)
  from assms h obtain p w0 where
    mk: "mkstemp dir ''.html'' ''report.header.tmp.'' w = (Inr p, w0)"
    and res: "fca' = fca @ [''--header-html'', p]" "tfs' = tfs @ [p]" "w1 = write_file p h w0"
    by (auto simp: stage_header_def split: prod.splits sum.splits)
  from write_temp_creates [OF mk, of h] mkstemp_Inr(5) [OF mk] res True h
  show ?thesis by auto
qed

lemma stage_footer_Inr:
  assumes "stage_footer dir footer (fca, tfs) w = (Inr (fca', tfs'), w1)"
  shows "\<exists>fs. fca' = fca @ concat (map (\<lambda>p. [''--footer-html'', p]) fs) \<and> tfs' = tfs @ fs
           \<and> (if truthy footer then (\<exists>p. fs = [p] \<and> files w1 p = footer) else fs = [])
           \<and> (\<forall>p \<in> set fs. suffix ''.html'' p) \<and> creates w w1 fs"
proof (cases "truthy footer")
  case False
  then have "stage_footer dir footer (fca, tfs) w = (Inr (fca, tfs), w)"
    by (auto simp: stage_footer_def truthy_def split: option.splits)
  with assms False show ?thesis by (simp add: creates_refl)
next
  case True
  then obtain f where f: "footer = Some f" "f \<noteq> []"
    by (auto simp: truthy_def split: option.splits)
  from assms f obtain p w0 where
    mk: "mkstemp dir ''.html'' ''report.footer.tmp.'' w = (Inr p, w0)"
    and res: "fca' = fca @ [''--footer-html'', p]" "tfs' = tfs @ [p]" "w1 = write_file p f w0"
    by (auto simp: stage_footer_def split: prod.splits sum.splits)
  from write_temp_creates [OF mk, of f] mkstemp_Inr(5) [OF mk] res True f
  show ?thesis by auto
qed

lemma stage_bodies_Inr:
  "stage_bodies dir i bodies (ps, tfs) w = (Inr (ps', tfs'), w') \<Longrightarrow>
     \<exists>new. ps' = ps @ new \<and> tfs' = tfs @ new \<and> length new = length bodies
        \<and> (\<forall>k<length bodies. files w' (new ! k) = Some (bodies ! k))
        \<and> (\<forall>p \<in> set new. suffix ''.html'' p) \<and> creates w w' new"
proof (induction bodies arbitrary: i ps tfs w)
  case Nil
  then show ?case by (simp add: creates_refl)
next
  case (Cons body bodies)
  from Cons.prems obtain p w0 where
    mk: "mkstemp dir ''.html'' (''report.body.tmp.'' @ str_int (int i) @ ''.'') w = (Inr p, w0)"
    and rest: "stage_bodies dir (Suc i) bodies (ps @ [p], tfs @ [p]) (write_file p body w0) = (Inr (ps', tfs'), w')"
    by (auto split: prod.splits sum.splits)
  let ?w1 = "write_file p body w0"
  from Cons.IH [OF rest] obtain new where new:
    "ps' = (ps @ [p]) @ new" "tfs' = (tfs @ [p]) @ new" "length new = length bodies"
    "\<forall>k<length bodies. files w' (new ! k) = Some (bodies ! k)"
    "\<forall>p \<in> set new. suffix ''.html'' p" "creates ?w1 w' new"
    by blast
  have c1: "creates w ?w1 [p]" and f1: "files ?w1 p = Some body"
    using write_temp_creates [OF mk] by auto
  have keep: "files w' p = Some body"
    using creates_keeps [OF new(6), of p] f1 by simp
  have all: "\<forall>k<length (body # bodies). files w' ((p # new) ! k) = Some ((body # bodies) ! k)"
    using new(4) keep by (auto simp: nth_Cons split: nat.splits)
  have "ps' = ps @ (p # new)" "tfs' = tfs @ (p # new)" "length (p # new) = length (body # bodies)"
    using new by simp_all
  moreover have "\<forall>q \<in> set (p # new). suffix ''.html'' q"
    using new(5) mkstemp_Inr(5) [OF mk] by simp
  moreover have "creates w w' (p # new)"
    by (rule creates_cons [OF c1 new(6)])
  ultimately show ?case using all by blast
qed

lemma stage_Inr:
  assumes "stage dir bodies header footer w = (Inr st, w')"
  shows "\<exists>hs fs.
      temporary_files st = hs @ fs @ paths st @ [pdf_report_path st]
    \<and> files_command_args st =
        concat (map (\<lambda>p. [''--header-html'', p]) hs) @ concat (map (\<lambda>p. [''--footer-html'', p]) fs)
    \<and> (if truthy header then (\<exists>p. hs = [p] \<and> files w' p = header) else hs = [])
    \<and> (if truthy footer then (\<exists>p. fs = [p] \<and> files w' p = footer) else fs = [])
    \<and> length (paths st) = length bodies
    \<and> (\<forall>k<length bodies. files w' (paths st ! k) = Some (bodies ! k))
    \<and> (\<forall>p \<in> set (hs @ fs @ paths st). suffix ''.html'' p)
    \<and> files w' (pdf_report_path st) = Some [] \<and> suffix ''.pdf'' (pdf_report_path st)
    \<and> creates w w' (temporary_files st)"
proof -
  from assms obtain fca1 tfs1 w1 fca2 tfs2 w2 ps tfs3 w3 pdf where
    s1: "stage_header dir header ([], []) w = (Inr (fca1, tfs1), w1)"
    and s2: "stage_footer dir footer (fca1, tfs1) w1 = (Inr (fca2, tfs2), w2)"
    and s3: "stage_bodies dir 0 bodies ([], tfs2) w2 = (Inr (ps, tfs3), w3)"
    and s4: "mkstemp dir ''.pdf'' ''report.tmp.'' w3 = (Inr pdf, w')"
    and st: "st = \<lparr>files_command_args = fca2, temporary_files = tfs3 @ [pdf], paths = ps,
                  pdf_report_path = pdf\<rparr>"
    by (auto simp: stage_def split: prod.splits sum.splits)
  from stage_header_Inr [OF s1] obtain hs where hs:
    "fca1 = concat (map (\<lambda>p. [''--header-html'', p]) hs)" "tfs1 = hs"
    "if truthy header then (\<exists>p. hs = [p] \<and> files w1 p = header) else hs = []"
    "\<forall>p \<in> set hs. suffix ''.html'' p" "creates w w1 hs"
    by auto
  from stage_footer_Inr [OF s2] obtain fs where fs:
    "fca2 = fca1 @ concat (map (\<lambda>p. [''--footer-html'', p]) fs)" "tfs2 = tfs1 @ fs"
    "if truthy footer then (\<exists>p. fs = [p] \<and> files w2 p = footer) else fs = []"
    "\<forall>p \<in> set fs. suffix ''.html'' p" "creates w1 w2 fs"
    by auto
  from stage_bodies_Inr [OF s3] obtain new where new:
    "ps = new" "tfs3 = tfs2 @ new" "length new = length bodies"
    "\<forall>k<length bodies. files w3 (new ! k) = Some (bodies ! k)"
    "\<forall>p \<in> set new. suffix ''.html'' p" "creates w2 w3 new"
    by auto
  have c4: "creates w3 w' [pdf]" and f4: "files w' pdf = Some []"
    using mkstemp_creates [OF s4] by auto
  have c34: "creates w2 w' (new @ [pdf])"
    by (rule creates_trans [OF new(6) c4])
  have c24: "creates w1 w' (fs @ new @ [pdf])"
    by (rule creates_trans [OF fs(5) c34])
  have c14: "creates w w' (hs @ fs @ new @ [pdf])"
    by (rule creates_trans [OF hs(5) c24])
  have keep_h: "if truthy header then (\<exists>p. hs = [p] \<and> files w' p = header) else hs = []"
  proof (cases "truthy header")
    case True
    with hs(3) obtain p where p: "hs = [p]" "files w1 p = header" by auto
    from True p have "files w1 p \<noteq> None" by (auto simp: truthy_def split: option.splits)
    from creates_keeps [OF c24 this] p True show ?thesis by simp
  next
    case False
    with hs(3) show ?thesis by simp
  qed
  have keep_f: "if truthy footer then (\<exists>p. fs = [p] \<and> files w' p = footer) else fs = []"
  proof (cases "truthy footer")
    case True
    with fs(3) obtain p where p: "fs = [p]" "files w2 p = footer" by auto
    from True p have "files w2 p \<noteq> None" by (auto simp: truthy_def split: option.splits)
    from creates_keeps [OF c34 this] p True show ?thesis by simp
  next
    case False
    with fs(3) show ?thesis by simp
  qed
  have keep_b: "\<forall>k<length bodies. files w' (new ! k) = Some (bodies ! k)"
  proof (intro allI impI)
    fix k assume k: "k < length bodies"
    with new(4) have "files w3 (new ! k) = Some (bodies ! k)" by simp
    with creates_keeps [OF c4, of "new ! k"] show "files w' (new ! k) = Some (bodies ! k)" by simp
  qed
  have "temporary_files st = hs @ fs @ paths st @ [pdf_report_path st]"
    using st hs(2) fs(2) new(1,2) by simp
  moreover have "files_command_args st =
        concat (map (\<lambda>p. [''--header-html'', p]) hs) @ concat (map (\<lambda>p. [''--footer-html'', p]) fs)"
    using st hs(1) fs(1) by simp
  moreover have "length (paths st) = length bodies"
    using st new(1,3) by simp
  moreover have "\<forall>k<length bodies. files w' (paths st ! k) = Some (bodies ! k)"
    using st new(1) keep_b by simp
  moreover have "\<forall>p \<in> set (hs @ fs @ paths st). suffix ''.html'' p"
    using st new(1,5) hs(4) fs(4) by auto
  moreover have "files w' (pdf_report_path st) = Some []" "suffix ''.pdf'' (pdf_report_path st)"
    using st f4 mkstemp_Inr(5) [OF s4] by simp_all
  moreover have "creates w w' (temporary_files st)"
    using st c14 hs(2) fs(2) new(1,2) by simp
  ultimately show ?thesis using keep_h keep_f by blast
qed

lemma files_logger [simp]: "files (logger lvl msg w) = files w"
  by (simp add: logger_def)

lemma logged_logger [simp]: "logged (logger lvl msg w) = logged w @ [(lvl, msg)]"
  by (simp add: logger_def)

lemma files_log_lines [simp]: "files (log_lines tag ls w) = files w"
  by (induction ls arbitrary: w) simp_all

lemma logged_log_lines [simp]:
  "logged (log_lines tag ls w) = logged w @ map (\<lambda>l. (INFO, tag @ bytes_repr l)) ls"
  by (induction ls arbitrary: w) simp_all

lemma invoke_popen:
  assumes "get_wkhtmltopdf_bin env = Inr bin"
    and "popen_communicate env (wkhtmltopdf_command bin args st) (files w) = Inr (out, err, rc, fs)"
  shows "files (snd (invoke env args st w)) = fs"
    and "fst (invoke env args st w) =
      (if rc \<noteq> 0 \<and> rc \<noteq> 1 then
         (case py_mod (translate env (if rc = - 11 then MEMORY_MESSAGE else FAILED_MESSAGE))
                 [PStr (str_int rc), PBytes (last_bytes 1000 err)] of
            Inl e \<Rightarrow> Inl e
          | Inr t \<Rightarrow> Inl (UserError t))
       else Inr ())"
    and "logged (snd (invoke env args st w)) =
      logged w @ [(INFO, ''[[ Wkhtmltopdf ]] command: '' @ concat (wkhtmltopdf_command bin args st))]
        @ map (\<lambda>l. (INFO, ''[[ Wkhtmltopdf ]] out: '' @ bytes_repr l)) (splitlines out)
        @ map (\<lambda>l. (INFO, ''[[ Wkhtmltopdf ]] err: '' @ bytes_repr l)) (splitlines err)
        @ [(INFO, ''[[ Wkhtmltopdf ]] returncode: '' @ str_int rc)]
        @ (if (rc = 0 \<or> rc = 1) \<and> err \<noteq> [] then [(WARNING, ''wkhtmltopdf: '' @ bytes_repr err)] else [])"
  using assms by (auto simp: invoke_def Let_def split: sum.splits)

lemma cleanup_step:
  "cleanup env (f # rest) w =
     (if unlink_fails env (files w) f
      then cleanup env rest (logger ERROR (''Error when trying to remove file '' @ f) w)
      else cleanup env rest (w\<lparr>files := (files w)(f := None)\<rparr>))"
  by (simp add: unlink_def unlink_fails_def)

lemma cleanup_returns: "fst (cleanup env tfs w) = Inr ()"
  by (induction tfs arbitrary: w) (simp_all add: cleanup_step del: cleanup.simps(2))

lemma cleanup_files:
  "files (snd (cleanup env tfs w)) p =
     (if p \<in> set tfs \<and> \<not> unlink_denied env p then None else files w p)"
  by (induction tfs arbitrary: w)
     (auto simp: cleanup_step unlink_fails_def simp del: cleanup.simps(2))

lemma cleanup_logged:
  "distinct tfs \<Longrightarrow>
     logged (snd (cleanup env tfs w)) =
       logged w @ map (\<lambda>f. (ERROR, ''Error when trying to remove file '' @ f))
                      (filter (unlink_fails env (files w)) tfs)"
proof (induction tfs arbitrary: w)
  case Nil
  then show ?case by simp
next
  case (Cons f rest)
  have same: "filter (unlink_fails env ((files w)(f := None))) rest
                = filter (unlink_fails env (files w)) rest"
    using Cons.prems by (intro filter_cong) (auto simp: unlink_fails_def)
  from Cons show ?case
    by (simp add: cleanup_step same del: cleanup.simps(2))
qed

lemma run_launched:
  assumes "stage (gettempdir env) bodies header footer w = (Inr st, w1)"
    and "get_wkhtmltopdf_bin env = Inr bin"
    and "popen_communicate env
           (wkhtmltopdf_command bin
              (build_wkhtmltopdf_args env (get_paperformat env) landscape spa svs) st)
           (files w1) = Inr (out, err, rc, fs)"
  shows "run_wkhtmltopdf env bodies header footer landscape spa svs w =
     (let args = build_wkhtmltopdf_args env (get_paperformat env) landscape spa svs;
          w2 = snd (invoke env args st w1)
      in if rc \<noteq> 0 \<and> rc \<noteq> 1 then (map_sum id (\<lambda>u. []) (fst (invoke env args st w1)), w2)
         else (case fs (pdf_report_path st) of
                 None \<Rightarrow> (Inl (FileNotFoundError (pdf_report_path st)), w2)
               | Some content \<Rightarrow> (Inr content, snd (cleanup env (temporary_files st) w2))))"
proof -
  let ?args = "build_wkhtmltopdf_args env (get_paperformat env) landscape spa svs"
  obtain r w2 where inv: "invoke env ?args st w1 = (r, w2)" by (cases "invoke env ?args st w1")
  from invoke_popen [OF assms(2,3)] inv have
    f2: "files w2 = fs" and
    r: "r = (if rc \<noteq> 0 \<and> rc \<noteq> 1 then
         (case py_mod (translate env (if rc = - 11 then MEMORY_MESSAGE else FAILED_MESSAGE))
                 [PStr (str_int rc), PBytes (last_bytes 1000 err)] of
            Inl e \<Rightarrow> Inl e
          | Inr t \<Rightarrow> Inl (UserError t))
       else Inr ())"
    by simp_all
  obtain r3 w3 where cl: "cleanup env (temporary_files st) w2 = (r3, w3)"
    by (cases "cleanup env (temporary_files st) w2")
  with cleanup_returns [of env "temporary_files st" w2] have r3: "r3 = Inr ()" by simp
  show ?thesis
    using assms(1) inv f2 r cl r3
    by (auto simp: run_wkhtmltopdf_def Let_def read_file_def split: sum.splits option.splits)
qed

lemma cleanup_append:
  "snd (cleanup env (xs @ ys) w) = snd (cleanup env ys (snd (cleanup env xs w)))"
  by (induction xs arbitrary: w) (simp_all add: cleanup_step del: cleanup.simps(2))

lemma str_int_small:
  "str_int 0 = ''0''" "str_int 1 = ''1''" "str_int 2 = ''2''" "str_int (- 11) = ''-11''"
  by (simp_all add: str_int_def str_nat.simps digit_char_def)

lemma example_stage:
  "stage ''/tmp'' [''x''] (Some ''h'') None example_world = (Inr example_staged, example_staged_world)"
  by (simp add: stage_def stage_header_def stage_footer_def mkstemp_def example_world_def
        write_file_def str_int_small example_staged_def example_staged_world_def)

lemma py_mod_FAILED:
  "py_mod FAILED_MESSAGE [a, b] =
     Inr (''Wkhtmltopdf failed (error code: '' @ py_str a @ ''). Message: '' @ py_str b)"
  by (simp add: FAILED_MESSAGE_def)

lemma py_mod_MEMORY:
  "py_mod MEMORY_MESSAGE [a, b] =
     Inr (''Wkhtmltopdf failed (error code: '' @ py_str a
          @ ''). Memory limit too low or maximum file number of subprocess reached. Message : ''
          @ py_str b)"
  by (simp add: MEMORY_MESSAGE_def)

lemma escape_plain: "plain_byte c \<Longrightarrow> escape_byte SQUOTE c = [c]"
  by (auto simp: plain_byte_def escape_byte_def TAB_def LF_def CR_def)

lemma bytes_repr_plain:
  assumes "\<forall>c \<in> set b. plain_byte c"
  shows "bytes_repr b = [CHR ''b'', SQUOTE] @ b @ [SQUOTE]"
proof -
  have "SQUOTE \<notin> set b" using assms by (auto simp: plain_byte_def)
  moreover have "concat (map (escape_byte SQUOTE) b) = b"
    using assms by (induction b) (simp_all add: escape_plain)
  ultimately show ?thesis by (simp add: bytes_repr_def)
qed

lemma cons_ok_Inr: "cons_ok c r = Inr m \<longleftrightarrow> (\<exists>m'. r = Inr m' \<and> m = c # m')"
  by (cases r) auto

lemma append_ok_Inr: "append_ok p r = Inr m \<longleftrightarrow> (\<exists>m'. r = Inr m' \<and> m = p @ m')"
  by (cases r) auto

lemma sublist_ConsI: "sublist xs ys \<Longrightarrow> sublist xs (y # ys)"
  by (simp add: sublist_Cons_right)

lemma sublist_prependI: "sublist xs ys \<Longrightarrow> sublist xs (p @ ys)"
  by (induction p) (simp_all add: sublist_ConsI)

lemma py_mod_contains:
  "py_mod t as = Inr m \<Longrightarrow> a \<in> set as \<Longrightarrow> sublist (py_str a) m"
proof (induction t as arbitrary: m rule: py_mod.induct)
  case 1
  then show ?case by simp
next
  case (2 a as)
  then show ?case by simp
next
  case (3 c as)
  then show ?case by (cases as) (auto split: if_splits)
next
  case (4 c d ds as)
  show ?case
  proof (cases "c \<noteq> CHR ''%''")
    case True
    with "4.prems" obtain m' where "py_mod (d # ds) as = Inr m'" "m = c # m'"
      by (auto simp: cons_ok_Inr)
    with "4.IH"(1) [OF True] "4.prems"(2) show ?thesis by (simp add: sublist_ConsI)
  next
    case c: False
    show ?thesis
    proof (cases "d = CHR ''%''")
      case True
      with c "4.prems" obtain m' where "py_mod ds as = Inr m'" "m = c # m'"
        by (auto simp: cons_ok_Inr)
      with "4.IH"(2) [OF c True] "4.prems"(2) show ?thesis by (simp add: sublist_ConsI)
    next
      case d1: False
      show ?thesis
      proof (cases "d = CHR ''s''")
        case True
        with c d1 "4.prems" obtain x as' m' where
          x: "as = x # as'" "py_mod ds as' = Inr m'" "m = py_str x @ m'"
          by (auto simp: append_ok_Inr split: list.splits)
        show ?thesis
        proof (cases "a = x")
          case True
          with x show ?thesis by (simp add: sublist_appendI [of _ "[]", simplified])
        next
          case False
          with x "4.prems"(2) have "a \<in> set as'" by simp
          from "4.IH"(3) [OF c d1 True x(1) x(2) this] x(3) show ?thesis
            by (simp add: sublist_prependI)
        qed
      next
        case d2: False
        show ?thesis
        proof (cases "d = CHR ''d''")
          case True
          with c d1 d2 "4.prems" obtain i as' m' where
            x: "as = PInt i # as'" "py_mod ds as' = Inr m'" "m = str_int i @ m'"
            by (auto simp: append_ok_Inr split: list.splits pyval.splits)
          show ?thesis
          proof (cases "a = PInt i")
            case True
            with x show ?thesis by (simp add: sublist_appendI [of _ "[]", simplified])
          next
            case False
            with x "4.prems"(2) have "a \<in> set as'" by simp
            from "4.IH"(4) [OF c d1 d2 True x(1) _ x(2) this] x(3) show ?thesis
              by (simp add: sublist_prependI)
          qed
        next
          case False
          with c d1 d2 "4.prems" show ?thesis by simp
        qed
      qed
    qed
  qed
qed

lemma stage_facts:
  assumes "stage dir bodies header footer w = (Inr st, w1)"
  shows "creates w w1 (temporary_files st)" and "distinct (temporary_files st)"
    and "logged w1 = logged w"
    and "pdf_report_path st \<in> set (temporary_files st)"
    and "set (paths st) \<subseteq> set (temporary_files st)"
    and "files w1 (pdf_report_path st) = Some []"
  using stage_Inr [OF assms] by (auto simp: creates_def)

lemma run_logged:
  assumes "stage (gettempdir env) bodies header footer w = (Inr st, w1)"
    and "get_wkhtmltopdf_bin env = Inr bin"
    and "popen_communicate env
           (wkhtmltopdf_command bin
              (build_wkhtmltopdf_args env (get_paperformat env) landscape spa svs) st)
           (files w1) = Inr (out, err, rc, fs)"
  shows "logged (snd (run_wkhtmltopdf env bodies header footer landscape spa svs w)) =
      logged w
        @ [(INFO, ''[[ Wkhtmltopdf ]] command: '' @ concat (wkhtmltopdf_command bin
              (build_wkhtmltopdf_args env (get_paperformat env) landscape spa svs) st))]
        @ map (\<lambda>l. (INFO, ''[[ Wkhtmltopdf ]] out: '' @ bytes_repr l)) (splitlines out)
        @ map (\<lambda>l. (INFO, ''[[ Wkhtmltopdf ]] err: '' @ bytes_repr l)) (splitlines err)
        @ [(INFO, ''[[ Wkhtmltopdf ]] returncode: '' @ str_int rc)]
        @ (if (rc = 0 \<or> rc = 1) \<and> err \<noteq> [] then [(WARNING, ''wkhtmltopdf: '' @ bytes_repr err)] else [])
        @ (if (rc = 0 \<or> rc = 1) \<and> fs (pdf_report_path st) \<noteq> None
           then map (\<lambda>f. (ERROR, ''Error when trying to remove file '' @ f))
                    (filter (unlink_fails env fs) (temporary_files st))
           else [])"
proof -
  let ?args = "build_wkhtmltopdf_args env (get_paperformat env) landscape spa svs"
  let ?w2 = "snd (invoke env ?args st w1)"
  note inv = invoke_popen [OF assms(2,3)]
  note d = stage_facts(2,3) [OF assms(1)]
  have cl: "logged (snd (cleanup env (temporary_files st) ?w2)) =
      logged ?w2 @ map (\<lambda>f. (ERROR, ''Error when trying to remove file '' @ f))
                    (filter (unlink_fails env fs) (temporary_files st))"
    using cleanup_logged [OF d(1), of env ?w2] inv(1) by simp
  show ?thesis
    unfolding run_launched [OF assms] Let_def
    using cl inv(3) d(2) by (auto split: option.splits)
qed

lemma run_result:
  assumes "stage (gettempdir env) bodies header footer w = (Inr st, w1)"
    and "get_wkhtmltopdf_bin env = Inr bin"
    and "popen_communicate env
           (wkhtmltopdf_command bin
              (build_wkhtmltopdf_args env (get_paperformat env) landscape spa svs) st)
           (files w1) = Inr (out, err, rc, fs)"
  shows "fst (run_wkhtmltopdf env bodies header footer landscape spa svs w) =
      (if rc \<noteq> 0 \<and> rc \<noteq> 1 then
         (case py_mod (translate env (if rc = - 11 then MEMORY_MESSAGE else FAILED_MESSAGE))
                 [PStr (str_int rc), PBytes (last_bytes 1000 err)] of
            Inl e \<Rightarrow> Inl e
          | Inr t \<Rightarrow> Inl (UserError t))
       else (case fs (pdf_report_path st) of
               None \<Rightarrow> Inl (FileNotFoundError (pdf_report_path st))
             | Some content \<Rightarrow> Inr content))"
    and "files (snd (run_wkhtmltopdf env bodies header footer landscape spa svs w)) p =
      (if (rc = 0 \<or> rc = 1) \<and> fs (pdf_report_path st) \<noteq> None
          \<and> p \<in> set (temporary_files st) \<and> \<not> unlink_denied env p
       then None else fs p)"
proof -
  note inv = invoke_popen [OF assms(2,3)]
  show "fst (run_wkhtmltopdf env bodies header footer landscape spa svs w) =
      (if rc \<noteq> 0 \<and> rc \<noteq> 1 then
         (case py_mod (translate env (if rc = - 11 then MEMORY_MESSAGE else FAILED_MESSAGE))
                 [PStr (str_int rc), PBytes (last_bytes 1000 err)] of
            Inl e \<Rightarrow> Inl e
          | Inr t \<Rightarrow> Inl (UserError t))
       else (case fs (pdf_report_path st) of
               None \<Rightarrow> Inl (FileNotFoundError (pdf_report_path st))
             | Some content \<Rightarrow> Inr content))"
    unfolding run_launched [OF assms] Let_def inv(2)
    by (auto split: sum.splits option.splits)
  show "files (snd (run_wkhtmltopdf env bodies header footer landscape spa svs w)) p =
      (if (rc = 0 \<or> rc = 1) \<and> fs (pdf_report_path st) \<noteq> None
          \<and> p \<in> set (temporary_files st) \<and> \<not> unlink_denied env p
       then None else fs p)"
    unfolding run_launched [OF assms] Let_def
    by (auto simp: cleanup_files inv(1) split: option.splits)
qed




lemma example_found:
  "get_wkhtmltopdf_bin example_env = Inr ''/usr/bin/wkhtmltopdf''"
  "get_wkhtmltopdf_bin (fatal_env rc err) = Inr ''/usr/bin/wkhtmltopdf''"
  "get_wkhtmltopdf_bin (denying_env f) = Inr ''/usr/bin/wkhtmltopdf''"
  by (simp_all add: get_wkhtmltopdf_bin_def example_env_def fatal_env_def denying_env_def)

lemma example_tmp:
  "gettempdir example_env = ''/tmp''" "gettempdir (fatal_env rc err) = ''/tmp''"
  "gettempdir (denying_env f) = ''/tmp''"
  by (simp_all add: example_env_def fatal_env_def denying_env_def)

lemma example_staged_env:
  "stage (gettempdir example_env) [''x''] (Some ''h'') None example_world
     = (Inr example_staged, example_staged_world)"
  "stage (gettempdir (fatal_env rc err)) [''x''] (Some ''h'') None example_world
     = (Inr example_staged, example_staged_world)"
  "stage (gettempdir (denying_env f)) [''x''] (Some ''h'') None example_world
     = (Inr example_staged, example_staged_world)"
  by (simp_all add: example_tmp example_stage)

lemma example_ran:
  "popen_communicate example_env
     (wkhtmltopdf_command ''/usr/bin/wkhtmltopdf''
        (build_wkhtmltopdf_args example_env (get_paperformat example_env) False None False)
        example_staged)
     (files example_staged_world) = Inr ([], [], 0, example_output)"
  "popen_communicate (denying_env f)
     (wkhtmltopdf_command ''/usr/bin/wkhtmltopdf''
        (build_wkhtmltopdf_args (denying_env f) (get_paperformat (denying_env f)) False None False)
        example_staged)
     (files example_staged_world) = Inr ([], [], 0, example_output)"
  by (simp_all add: example_env_def denying_env_def wkhtmltopdf_command_def example_staged_def
        example_output_def)

lemma example_failed:
  "popen_communicate (fatal_env rc err)
     (wkhtmltopdf_command ''/usr/bin/wkhtmltopdf''
        (build_wkhtmltopdf_args (fatal_env rc err) (get_paperformat (fatal_env rc err)) False None False)
        example_staged)
     (files example_staged_world) = Inr ([], err, rc, files example_staged_world)"
  by (simp add: fatal_env_def failing_process_def)

lemma example_untranslated:
  "translate example_env = (\<lambda>s. s)" "translate (fatal_env rc err) = (\<lambda>s. s)"
  by (simp_all add: example_env_def fatal_env_def)

lemma example_output_pdf:
  "example_output (pdf_report_path example_staged) = Some ''%PDF''"
  "files example_staged_world (pdf_report_path example_staged) = Some []"
  by (simp_all add: example_output_def example_staged_def example_staged_world_def)

lemma last_bytes_suffix: "suffix (last_bytes k b) b"
  by (simp add: last_bytes_def suffix_drop)

lemma last_bytes_length: "length (last_bytes k b) = min k (length b)"
  by (simp add: last_bytes_def)

lemma new_records:
  "drop (length (logged w)) (logged w @ rs) = rs"
  by simp

lemma example_message:
  "py_mod (translate (fatal_env 2 [CHR ''e'', LF])
            (if (2::int) = - 11 then MEMORY_MESSAGE else FAILED_MESSAGE))
      [PStr (str_int 2), PBytes (last_bytes 1000 [CHR ''e'', LF])]
     = Inr (''Wkhtmltopdf failed (error code: 2). Message: b''
            @ [SQUOTE, CHR ''e'', BACKSLASH, CHR ''n'', SQUOTE])"
  by (simp add: example_untranslated py_mod_FAILED str_int_small bytes_repr_def escape_byte_def
        last_bytes_def LF_def SQUOTE_def DQUOTE_def BACKSLASH_def TAB_def CR_def Let_def)

lemma example_memory_message:
  "py_mod (translate (fatal_env (- 11) [])
            (if (- 11::int) = - 11 then MEMORY_MESSAGE else FAILED_MESSAGE))
      [PStr (str_int (- 11)), PBytes (last_bytes 1000 [])]
     = Inr (''Wkhtmltopdf failed (error code: -11). Memory limit too low or maximum file number of subprocess reached. Message : b''
            @ [SQUOTE, SQUOTE])"
  by (simp add: example_untranslated py_mod_MEMORY str_int_small bytes_repr_def
        last_bytes_def SQUOTE_def DQUOTE_def Let_def)

lemma example_ok_message:
  "py_mod (translate example_env (if (0::int) = - 11 then MEMORY_MESSAGE else FAILED_MESSAGE))
      [PStr (str_int 0), PBytes (last_bytes 1000 [])]
     = Inr (''Wkhtmltopdf failed (error code: 0). Message: b'' @ [SQUOTE, SQUOTE])"
  by (simp add: example_untranslated py_mod_FAILED str_int_small bytes_repr_def
        last_bytes_def SQUOTE_def DQUOTE_def Let_def)

lemma example_oops_message:
  "py_mod (translate (fatal_env 2 ''oops'')
            (if (2::int) = - 11 then MEMORY_MESSAGE else FAILED_MESSAGE))
      [PStr (str_int 2), PBytes (last_bytes 1000 ''oops'')]
     = Inr (''Wkhtmltopdf failed (error code: 2). Message: b'' @ [SQUOTE] @ ''oops'' @ [SQUOTE])"
  by (simp add: example_untranslated py_mod_FAILED str_int_small bytes_repr_def escape_byte_def
        last_bytes_def LF_def SQUOTE_def DQUOTE_def BACKSLASH_def TAB_def CR_def Let_def)

lemma oops_plain: "\<forall>c \<in> set (last_bytes 1000 ''oops''). plain_byte c"
  by (simp add: last_bytes_def plain_byte_def SQUOTE_def BACKSLASH_def)

lemma templates_differ: "MEMORY_MESSAGE \<noteq> FAILED_MESSAGE"
  by (simp add: MEMORY_MESSAGE_def FAILED_MESSAGE_def)

section \<open>The claims\<close>

text \<open>
  The theorems about a whole call share three premises: staging succeeded and left
  the local variables \<open>st\<close> and the world \<open>w1\<close>; the binary was found; and the
  subprocess, started on the command line of line 78 in the file system of \<open>w1\<close>,
  ended with the output \<open>out\<close>, the standard error \<open>err\<close> and the return code \<open>rc\<close>,
  leaving the file system \<open>fs\<close>.
\<close>

subsection \<open>C1: deletion of the temporary files\<close>

text \<open>
  On a fatal return code nothing is unlinked: the cleanup loop of lines 110-114 stands
  after the \<^verbatim>\<open>try\<close> block, line 99 raises inside it, and the handler
  \<^verbatim>\<open>except: raise\<close> only raises again. So the file system after the call is the one
  the subprocess left.
\<close>

lemma fatal_call_unlinks_nothing:
  assumes "stage (gettempdir env) bodies header footer w = (Inr st, w1)"
    and "get_wkhtmltopdf_bin env = Inr bin"
    and "popen_communicate env
           (wkhtmltopdf_command bin
              (build_wkhtmltopdf_args env (get_paperformat env) landscape spa svs) st)
           (files w1) = Inr (out, err, rc, fs)"
    and "rc \<noteq> 0" and "rc \<noteq> 1"
  shows "files (snd (run_wkhtmltopdf env bodies header footer landscape spa svs w)) = fs"
proof
  fix p
  show "files (snd (run_wkhtmltopdf env bodies header footer landscape spa svs w)) p = fs p"
    using assms(4,5) by (simp add: run_result(2) [OF assms(1-3)])
qed

text \<open>
  The path that returns does run the loop: on the return codes 0 and 1, with the
  output file read, the list \<^verbatim>\<open>temporary_files\<close> holds exactly the files the call
  created, each of them whose unlink the system does not refuse is gone when the call
  returns, and no other file is changed after the subprocess.
\<close>

lemma returning_call_unlinks_temporary_files:
  assumes "stage (gettempdir env) bodies header footer w = (Inr st, w1)"
    and "get_wkhtmltopdf_bin env = Inr bin"
    and "popen_communicate env
           (wkhtmltopdf_command bin
              (build_wkhtmltopdf_args env (get_paperformat env) landscape spa svs) st)
           (files w1) = Inr (out, err, rc, fs)"
    and "rc = 0 \<or> rc = 1"
    and "fs (pdf_report_path st) = Some content"
  shows "fst (run_wkhtmltopdf env bodies header footer landscape spa svs w) = Inr content
    \<and> (\<forall>p. p \<in> set (temporary_files st) \<longleftrightarrow> files w p = None \<and> files w1 p \<noteq> None)
    \<and> (\<forall>p \<in> set (temporary_files st). \<not> unlink_denied env p \<longrightarrow>
          files (snd (run_wkhtmltopdf env bodies header footer landscape spa svs w)) p = None)
    \<and> (\<forall>p. p \<notin> set (temporary_files st) \<longrightarrow>
          files (snd (run_wkhtmltopdf env bodies header footer landscape spa svs w)) p = fs p)"
proof -
  have created: "\<forall>p. p \<in> set (temporary_files st) \<longleftrightarrow> files w p = None \<and> files w1 p \<noteq> None"
    using stage_facts(1) [OF assms(1)] unfolding creates_def by metis
  show ?thesis
    using created assms(4,5) by (auto simp: run_result [OF assms(1-3)])
qed

text \<open>
  C1. Every temporary file the call creates should be deleted on every exit path, the
  path of the UserError included. The code does not do that. With one body and a
  header, and a subprocess that returns 2, the call raises the UserError; the header
  file, the body file and the output file, none of which was there before the call,
  are all still there after it, with what staging wrote to them. The same call with
  the return code 0 leaves none of the three.
\<close>

theorem temporary_files_left_on_usererror:
  "fst (run_wkhtmltopdf (fatal_env 2 []) [''x''] (Some ''h'') None False None False example_world)
     = Inl (UserError (''Wkhtmltopdf failed (error code: 2). Message: b'' @ [SQUOTE, SQUOTE]))
   \<and> files example_world ''/tmp/report.header.tmp.a.html'' = None
   \<and> files example_world ''/tmp/report.body.tmp.0.b.html'' = None
   \<and> files example_world ''/tmp/report.tmp.c.pdf'' = None
   \<and> files (snd (run_wkhtmltopdf (fatal_env 2 []) [''x''] (Some ''h'') None False None False example_world))
       ''/tmp/report.header.tmp.a.html'' = Some ''h''
   \<and> files (snd (run_wkhtmltopdf (fatal_env 2 []) [''x''] (Some ''h'') None False None False example_world))
       ''/tmp/report.body.tmp.0.b.html'' = Some ''x''
   \<and> files (snd (run_wkhtmltopdf (fatal_env 2 []) [''x''] (Some ''h'') None False None False example_world))
       ''/tmp/report.tmp.c.pdf'' = Some []
   \<and> fst (run_wkhtmltopdf example_env [''x''] (Some ''h'') None False None False example_world)
       = Inr ''%PDF''
   \<and> files (snd (run_wkhtmltopdf example_env [''x''] (Some ''h'') None False None False example_world))
       ''/tmp/report.header.tmp.a.html'' = None
   \<and> files (snd (run_wkhtmltopdf example_env [''x''] (Some ''h'') None False None False example_world))
       ''/tmp/report.body.tmp.0.b.html'' = None
   \<and> files (snd (run_wkhtmltopdf example_env [''x''] (Some ''h'') None False None False example_world))
       ''/tmp/report.tmp.c.pdf'' = None"
proof -
  have fatal: "(2::int) \<noteq> 0" "(2::int) \<noteq> 1" by simp_all
  have ok: "(0::int) = 0 \<or> (0::int) = 1" by simp
  note raised = run_result(1) [OF example_staged_env(2) example_found(2) example_failed, of 2 "[]"]
  note left = fatal_call_unlinks_nothing
                [OF example_staged_env(2) example_found(2) example_failed fatal, of "[]"]
  note returned = returning_call_unlinks_temporary_files
                [OF example_staged_env(1) example_found(1) example_ran(1) ok example_output_pdf(1)]
  have r: "fst (run_wkhtmltopdf (fatal_env 2 []) [''x''] (Some ''h'') None False None False example_world)
     = Inl (UserError (''Wkhtmltopdf failed (error code: 2). Message: b'' @ [SQUOTE, SQUOTE]))"
    unfolding raised
    by (simp add: example_untranslated py_mod_FAILED str_int_small bytes_repr_def last_bytes_def)
  show ?thesis
    unfolding left
    using r returned
    by (simp add: example_world_def example_staged_world_def example_staged_def example_env_def)
qed

subsection \<open>C2: the return code and the three outcomes\<close>

text \<open>
  C2. Where the message template formats (to \<open>text\<close>), the call raises a UserError if
  and only if the return code is neither 0 nor 1, and then it is the UserError of that
  text; on the return codes 0 and 1 the call returns the content of the output file
  when the file is there; and of its own log records exactly one is a WARNING when the
  return code is 0 or 1 and the standard error is not empty, and none otherwise.
\<close>

theorem usererror_iff_fatal_returncode:
  assumes "stage (gettempdir env) bodies header footer w = (Inr st, w1)"
    and "get_wkhtmltopdf_bin env = Inr bin"
    and "popen_communicate env
           (wkhtmltopdf_command bin
              (build_wkhtmltopdf_args env (get_paperformat env) landscape spa svs) st)
           (files w1) = Inr (out, err, rc, fs)"
    and "py_mod (translate env (if rc = - 11 then MEMORY_MESSAGE else FAILED_MESSAGE))
           [PStr (str_int rc), PBytes (last_bytes 1000 err)] = Inr text"
  shows "((\<exists>m. fst (run_wkhtmltopdf env bodies header footer landscape spa svs w) = Inl (UserError m))
            \<longleftrightarrow> rc \<noteq> 0 \<and> rc \<noteq> 1)
    \<and> (rc \<noteq> 0 \<and> rc \<noteq> 1 \<longrightarrow>
          fst (run_wkhtmltopdf env bodies header footer landscape spa svs w) = Inl (UserError text))
    \<and> ((rc = 0 \<or> rc = 1) \<and> fs (pdf_report_path st) = Some content \<longrightarrow>
          fst (run_wkhtmltopdf env bodies header footer landscape spa svs w) = Inr content)
    \<and> filter (\<lambda>r. fst r = WARNING)
         (drop (length (logged w))
            (logged (snd (run_wkhtmltopdf env bodies header footer landscape spa svs w))))
        = (if (rc = 0 \<or> rc = 1) \<and> err \<noteq> [] then [(WARNING, ''wkhtmltopdf: '' @ bytes_repr err)]
           else [])"
proof -
  have r: "fst (run_wkhtmltopdf env bodies header footer landscape spa svs w)
             = (if rc \<noteq> 0 \<and> rc \<noteq> 1 then Inl (UserError text)
                else (case fs (pdf_report_path st) of
                        None \<Rightarrow> Inl (FileNotFoundError (pdf_report_path st))
                      | Some c \<Rightarrow> Inr c))"
    unfolding run_result(1) [OF assms(1-3)] using assms(4) by simp
  have l: "filter (\<lambda>r. fst r = WARNING)
         (drop (length (logged w))
            (logged (snd (run_wkhtmltopdf env bodies header footer landscape spa svs w))))
        = (if (rc = 0 \<or> rc = 1) \<and> err \<noteq> [] then [(WARNING, ''wkhtmltopdf: '' @ bytes_repr err)]
           else [])"
    unfolding run_logged [OF assms(1-3)] append_assoc new_records
    by (simp add: filter_map comp_def)
  show ?thesis
    unfolding l r by (auto split: option.splits)
qed

theorem usererror_iff_fatal_returncode_witness:
  "stage (gettempdir (fatal_env 2 [CHR ''e'', LF])) [''x''] (Some ''h'') None example_world
     = (Inr example_staged, example_staged_world)
   \<and> get_wkhtmltopdf_bin (fatal_env 2 [CHR ''e'', LF]) = Inr ''/usr/bin/wkhtmltopdf''
   \<and> popen_communicate (fatal_env 2 [CHR ''e'', LF])
       (wkhtmltopdf_command ''/usr/bin/wkhtmltopdf''
          (build_wkhtmltopdf_args (fatal_env 2 [CHR ''e'', LF])
             (get_paperformat (fatal_env 2 [CHR ''e'', LF])) False None False)
          example_staged)
       (files example_staged_world) = Inr ([], [CHR ''e'', LF], 2, files example_staged_world)
   \<and> fst (run_wkhtmltopdf (fatal_env 2 [CHR ''e'', LF]) [''x''] (Some ''h'') None False None False
            example_world)
       = Inl (UserError (''Wkhtmltopdf failed (error code: 2). Message: b''
                          @ [SQUOTE, CHR ''e'', BACKSLASH, CHR ''n'', SQUOTE]))
   \<and> popen_communicate example_env
       (wkhtmltopdf_command ''/usr/bin/wkhtmltopdf''
          (build_wkhtmltopdf_args example_env (get_paperformat example_env) False None False)
          example_staged)
       (files example_staged_world) = Inr ([], [], 0, example_output)
   \<and> example_output (pdf_report_path example_staged) = Some ''%PDF''
   \<and> fst (run_wkhtmltopdf example_env [''x''] (Some ''h'') None False None False example_world)
       = Inr ''%PDF''"
  using usererror_iff_fatal_returncode
          [OF example_staged_env(2) example_found(2) example_failed example_message]
        usererror_iff_fatal_returncode
          [OF example_staged_env(1) example_found(1) example_ran(1) example_ok_message,
           of "''%PDF''"]
        example_staged_env(2) example_found(2) example_failed example_output_pdf example_ran(1)
  by simp

subsection \<open>C3: the standard error in the message\<close>

text \<open>
  C3 as stated does not hold. The standard error is a bytes object, and the \<^verbatim>\<open>%s\<close> of
  the template shows it as its literal: for the standard error \<^verbatim>\<open>e\<close>, newline, the
  message ends in \<^verbatim>\<open>b'e\n'\<close> with a backslash and the letter n, and the two bytes of
  the standard error are nowhere in it.
\<close>

theorem stderr_not_verbatim_counterexample:
  "fst (run_wkhtmltopdf (fatal_env 2 [CHR ''e'', LF]) [''x''] (Some ''h'') None False None False
          example_world)
     = Inl (UserError (''Wkhtmltopdf failed (error code: 2). Message: b''
                        @ [SQUOTE, CHR ''e'', BACKSLASH, CHR ''n'', SQUOTE]))
   \<and> \<not> sublist [CHR ''e'', LF]
          (''Wkhtmltopdf failed (error code: 2). Message: b''
             @ [SQUOTE, CHR ''e'', BACKSLASH, CHR ''n'', SQUOTE])"
proof -
  have "fst (run_wkhtmltopdf (fatal_env 2 [CHR ''e'', LF]) [''x''] (Some ''h'') None False None False
          example_world)
     = Inl (UserError (''Wkhtmltopdf failed (error code: 2). Message: b''
                        @ [SQUOTE, CHR ''e'', BACKSLASH, CHR ''n'', SQUOTE]))"
    unfolding run_result(1) [OF example_staged_env(2) example_found(2) example_failed]
    using example_message by simp
  moreover have "\<not> sublist [CHR ''e'', LF]
          (''Wkhtmltopdf failed (error code: 2). Message: b''
             @ [SQUOTE, CHR ''e'', BACKSLASH, CHR ''n'', SQUOTE])"
    by (simp add: sublist_Cons_right LF_def SQUOTE_def BACKSLASH_def)
  ultimately show ?thesis by simp
qed

text \<open>
  C3, amended. On a fatal return code, where the message template formats, the
  message of the UserError holds the bytes literal of the last 1000 bytes of the
  standard error (all of it when it is shorter); where each of those bytes is printable
  ASCII other than the single quote and the backslash, the literal is the bytes between
  \<^verbatim>\<open>b'\<close> and \<^verbatim>\<open>'\<close>, so the message then holds them verbatim.
\<close>

theorem usererror_message_holds_stderr_literal:
  assumes "stage (gettempdir env) bodies header footer w = (Inr st, w1)"
    and "get_wkhtmltopdf_bin env = Inr bin"
    and "popen_communicate env
           (wkhtmltopdf_command bin
              (build_wkhtmltopdf_args env (get_paperformat env) landscape spa svs) st)
           (files w1) = Inr (out, err, rc, fs)"
    and "rc \<noteq> 0" and "rc \<noteq> 1"
    and "py_mod (translate env (if rc = - 11 then MEMORY_MESSAGE else FAILED_MESSAGE))
           [PStr (str_int rc), PBytes (last_bytes 1000 err)] = Inr text"
  shows "fst (run_wkhtmltopdf env bodies header footer landscape spa svs w) = Inl (UserError text)
    \<and> sublist (bytes_repr (last_bytes 1000 err)) text
    \<and> suffix (last_bytes 1000 err) err
    \<and> length (last_bytes 1000 err) = min 1000 (length err)
    \<and> ((\<forall>c \<in> set (last_bytes 1000 err). plain_byte c) \<longrightarrow>
          bytes_repr (last_bytes 1000 err) = [CHR ''b'', SQUOTE] @ last_bytes 1000 err @ [SQUOTE]
          \<and> sublist (last_bytes 1000 err) text)"
proof -
  have r: "fst (run_wkhtmltopdf env bodies header footer landscape spa svs w) = Inl (UserError text)"
    unfolding run_result(1) [OF assms(1-3)] using assms(4-6) by simp
  have s: "sublist (bytes_repr (last_bytes 1000 err)) text"
    using py_mod_contains [OF assms(6), of "PBytes (last_bytes 1000 err)"] by simp
  have p: "bytes_repr (last_bytes 1000 err) = [CHR ''b'', SQUOTE] @ last_bytes 1000 err @ [SQUOTE]
          \<and> sublist (last_bytes 1000 err) text"
    if plain: "\<forall>c \<in> set (last_bytes 1000 err). plain_byte c"
  proof -
    have eq: "bytes_repr (last_bytes 1000 err) = [CHR ''b'', SQUOTE] @ last_bytes 1000 err @ [SQUOTE]"
      by (rule bytes_repr_plain [OF plain])
    have "sublist (last_bytes 1000 err) (bytes_repr (last_bytes 1000 err))"
      unfolding eq by (rule sublist_appendI)
    from sublist_order.order_trans [OF this s] eq show ?thesis by simp
  qed
  from r s p show ?thesis
    by (simp add: last_bytes_suffix last_bytes_length)
qed

theorem usererror_message_holds_stderr_literal_witness:
  "stage (gettempdir (fatal_env 2 ''oops'')) [''x''] (Some ''h'') None example_world
     = (Inr example_staged, example_staged_world)
   \<and> get_wkhtmltopdf_bin (fatal_env 2 ''oops'') = Inr ''/usr/bin/wkhtmltopdf''
   \<and> popen_communicate (fatal_env 2 ''oops'')
       (wkhtmltopdf_command ''/usr/bin/wkhtmltopdf''
          (build_wkhtmltopdf_args (fatal_env 2 ''oops'')
             (get_paperformat (fatal_env 2 ''oops'')) False None False)
          example_staged)
       (files example_staged_world) = Inr ([], ''oops'', 2, files example_staged_world)
   \<and> (2 :: int) \<noteq> 0 \<and> (2 :: int) \<noteq> 1
   \<and> plain_byte (CHR ''o'') \<and> plain_byte (CHR ''p'') \<and> plain_byte (CHR ''s'')
   \<and> fst (run_wkhtmltopdf (fatal_env 2 ''oops'') [''x''] (Some ''h'') None False None False
            example_world)
       = Inl (UserError (''Wkhtmltopdf failed (error code: 2). Message: b'' @ [SQUOTE] @ ''oops'' @ [SQUOTE]))
   \<and> bytes_repr (last_bytes 1000 ''oops'') = [CHR ''b'', SQUOTE] @ ''oops'' @ [SQUOTE]
   \<and> sublist ''oops''
       (''Wkhtmltopdf failed (error code: 2). Message: b'' @ [SQUOTE] @ ''oops'' @ [SQUOTE])"
proof -
  have lb: "last_bytes 1000 ''oops'' = ''oops''" by (simp add: last_bytes_def)
  have pl: "plain_byte (CHR ''o'') \<and> plain_byte (CHR ''p'') \<and> plain_byte (CHR ''s'')"
    using oops_plain by (simp add: lb)
  have fatal: "(2::int) \<noteq> 0" "(2::int) \<noteq> 1" by simp_all
  note w = usererror_message_holds_stderr_literal
          [OF example_staged_env(2) example_found(2) example_failed fatal example_oops_message]
  have "fst (run_wkhtmltopdf (fatal_env 2 ''oops'') [''x''] (Some ''h'') None False None False
            example_world)
       = Inl (UserError (''Wkhtmltopdf failed (error code: 2). Message: b'' @ [SQUOTE] @ ''oops'' @ [SQUOTE]))"
    using w by simp
  moreover have "bytes_repr (last_bytes 1000 ''oops'') = [CHR ''b'', SQUOTE] @ ''oops'' @ [SQUOTE]
     \<and> sublist (last_bytes 1000 ''oops'')
         (''Wkhtmltopdf failed (error code: 2). Message: b'' @ [SQUOTE] @ ''oops'' @ [SQUOTE])"
    using w oops_plain unfolding lb by blast
  ultimately show ?thesis
    using pl example_staged_env(2) example_found(2) example_failed unfolding lb by simp
qed

subsection \<open>C4: the message of the return code -11\<close>

text \<open>
  C4. On a fatal return code the message is formatted from the translation of the
  memory template when the return code is -11 and from the translation of the generic
  template otherwise, and the two templates differ. Where the templates are not
  translated, the message is the text of the chosen template with the return code and
  the bytes literal in its slots, and it is the memory text exactly when the return
  code is -11.
\<close>

theorem memory_message_iff_minus_11:
  assumes "stage (gettempdir env) bodies header footer w = (Inr st, w1)"
    and "get_wkhtmltopdf_bin env = Inr bin"
    and "popen_communicate env
           (wkhtmltopdf_command bin
              (build_wkhtmltopdf_args env (get_paperformat env) landscape spa svs) st)
           (files w1) = Inr (out, err, rc, fs)"
    and "rc \<noteq> 0" and "rc \<noteq> 1"
  shows "fst (run_wkhtmltopdf env bodies header footer landscape spa svs w)
        = (case py_mod (translate env (if rc = - 11 then MEMORY_MESSAGE else FAILED_MESSAGE))
                  [PStr (str_int rc), PBytes (last_bytes 1000 err)] of
             Inl e \<Rightarrow> Inl e
           | Inr text \<Rightarrow> Inl (UserError text))
    \<and> MEMORY_MESSAGE \<noteq> FAILED_MESSAGE
    \<and> (translate env MEMORY_MESSAGE = MEMORY_MESSAGE \<and> translate env FAILED_MESSAGE = FAILED_MESSAGE
        \<longrightarrow> fst (run_wkhtmltopdf env bodies header footer landscape spa svs w)
              = Inl (UserError (''Wkhtmltopdf failed (error code: '' @ str_int rc
                  @ (if rc = - 11
                     then ''). Memory limit too low or maximum file number of subprocess reached. Message : ''
                     else ''). Message: '')
                  @ bytes_repr (last_bytes 1000 err)))
          \<and> (fst (run_wkhtmltopdf env bodies header footer landscape spa svs w)
              = Inl (UserError (''Wkhtmltopdf failed (error code: '' @ str_int rc
                  @ ''). Memory limit too low or maximum file number of subprocess reached. Message : ''
                  @ bytes_repr (last_bytes 1000 err)))
             \<longleftrightarrow> rc = - 11))"
proof -
  have r: "fst (run_wkhtmltopdf env bodies header footer landscape spa svs w)
        = (case py_mod (translate env (if rc = - 11 then MEMORY_MESSAGE else FAILED_MESSAGE))
                  [PStr (str_int rc), PBytes (last_bytes 1000 err)] of
             Inl e \<Rightarrow> Inl e
           | Inr text \<Rightarrow> Inl (UserError text))"
    unfolding run_result(1) [OF assms(1-3)] using assms(4,5) by simp
  show ?thesis
    unfolding r by (simp add: templates_differ py_mod_MEMORY py_mod_FAILED)
qed

theorem memory_message_iff_minus_11_witness:
  "stage (gettempdir (fatal_env (- 11) [])) [''x''] (Some ''h'') None example_world
     = (Inr example_staged, example_staged_world)
   \<and> get_wkhtmltopdf_bin (fatal_env (- 11) []) = Inr ''/usr/bin/wkhtmltopdf''
   \<and> popen_communicate (fatal_env (- 11) [])
       (wkhtmltopdf_command ''/usr/bin/wkhtmltopdf''
          (build_wkhtmltopdf_args (fatal_env (- 11) [])
             (get_paperformat (fatal_env (- 11) [])) False None False)
          example_staged)
       (files example_staged_world) = Inr ([], [], - 11, files example_staged_world)
   \<and> (- 11 :: int) \<noteq> 0 \<and> (- 11 :: int) \<noteq> 1
   \<and> translate (fatal_env (- 11) []) MEMORY_MESSAGE = MEMORY_MESSAGE
   \<and> translate (fatal_env (- 11) []) FAILED_MESSAGE = FAILED_MESSAGE
   \<and> fst (run_wkhtmltopdf (fatal_env (- 11) []) [''x''] (Some ''h'') None False None False
            example_world)
       = Inl (UserError (''Wkhtmltopdf failed (error code: -11). Memory limit too low or maximum file number of subprocess reached. Message : b''
                          @ [SQUOTE, SQUOTE]))
   \<and> fst (run_wkhtmltopdf (fatal_env 2 []) [''x''] (Some ''h'') None False None False
            example_world)
       = Inl (UserError (''Wkhtmltopdf failed (error code: 2). Message: b'' @ [SQUOTE, SQUOTE]))"
proof -
  have f11: "(- 11::int) \<noteq> 0" "(- 11::int) \<noteq> 1" and f2: "(2::int) \<noteq> 0" "(2::int) \<noteq> 1"
    by simp_all
  have r: "bytes_repr (last_bytes 1000 []) = [CHR ''b'', SQUOTE, SQUOTE]"
    by (simp add: bytes_repr_def last_bytes_def Let_def SQUOTE_def)
  show ?thesis
    using memory_message_iff_minus_11
            [OF example_staged_env(2) example_found(2) example_failed f11, of "[]"]
          memory_message_iff_minus_11
            [OF example_staged_env(2) example_found(2) example_failed f2, of "[]"]
          example_staged_env(2) example_found(2) example_failed
    by (simp add: example_untranslated str_int_small r py_mod_MEMORY py_mod_FAILED)
qed

subsection \<open>C5: a failed unlink\<close>

text \<open>
  C5. On the return codes 0 and 1, with the output file there, the call returns the
  content of the output file whatever unlinks the system refuses; the ERROR records
  among its own log records are those of the temporary files whose unlink failed, in
  the order of the list; so every failed unlink is logged.
\<close>

theorem unlink_failure_logged_not_raised:
  assumes "stage (gettempdir env) bodies header footer w = (Inr st, w1)"
    and "get_wkhtmltopdf_bin env = Inr bin"
    and "popen_communicate env
           (wkhtmltopdf_command bin
              (build_wkhtmltopdf_args env (get_paperformat env) landscape spa svs) st)
           (files w1) = Inr (out, err, rc, fs)"
    and "rc = 0 \<or> rc = 1"
    and "fs (pdf_report_path st) = Some content"
  shows "fst (run_wkhtmltopdf env bodies header footer landscape spa svs w) = Inr content
    \<and> filter (\<lambda>r. fst r = ERROR)
         (drop (length (logged w))
            (logged (snd (run_wkhtmltopdf env bodies header footer landscape spa svs w))))
        = map (\<lambda>f. (ERROR, ''Error when trying to remove file '' @ f))
              (filter (unlink_fails env fs) (temporary_files st))
    \<and> (\<forall>f \<in> set (temporary_files st). unlink_fails env fs f \<longrightarrow>
          (ERROR, ''Error when trying to remove file '' @ f)
            \<in> set (logged (snd (run_wkhtmltopdf env bodies header footer landscape spa svs w))))"
proof -
  have r: "fst (run_wkhtmltopdf env bodies header footer landscape spa svs w) = Inr content"
    unfolding run_result(1) [OF assms(1-3)] using assms(4,5) by auto
  have l: "filter (\<lambda>r. fst r = ERROR)
         (drop (length (logged w))
            (logged (snd (run_wkhtmltopdf env bodies header footer landscape spa svs w))))
        = map (\<lambda>f. (ERROR, ''Error when trying to remove file '' @ f))
              (filter (unlink_fails env fs) (temporary_files st))"
    unfolding run_logged [OF assms(1-3)] append_assoc new_records
    using assms(4,5) by (auto simp: filter_map comp_def)
  have m: "(ERROR, ''Error when trying to remove file '' @ f)
            \<in> set (logged (snd (run_wkhtmltopdf env bodies header footer landscape spa svs w)))"
    if "f \<in> set (temporary_files st)" "unlink_fails env fs f" for f
    unfolding run_logged [OF assms(1-3)] using that assms(4,5) by auto
  from r l m show ?thesis by blast
qed

theorem unlink_failure_logged_not_raised_witness:
  "stage (gettempdir (denying_env ''/tmp/report.body.tmp.0.b.html'')) [''x''] (Some ''h'') None
      example_world = (Inr example_staged, example_staged_world)
   \<and> get_wkhtmltopdf_bin (denying_env ''/tmp/report.body.tmp.0.b.html'') = Inr ''/usr/bin/wkhtmltopdf''
   \<and> popen_communicate (denying_env ''/tmp/report.body.tmp.0.b.html'')
       (wkhtmltopdf_command ''/usr/bin/wkhtmltopdf''
          (build_wkhtmltopdf_args (denying_env ''/tmp/report.body.tmp.0.b.html'')
             (get_paperformat (denying_env ''/tmp/report.body.tmp.0.b.html'')) False None False)
          example_staged)
       (files example_staged_world) = Inr ([], [], 0, example_output)
   \<and> ((0::int) = 0 \<or> (0::int) = 1)
   \<and> example_output (pdf_report_path example_staged) = Some ''%PDF''
   \<and> unlink_fails (denying_env ''/tmp/report.body.tmp.0.b.html'') example_output
        ''/tmp/report.body.tmp.0.b.html''
   \<and> fst (run_wkhtmltopdf (denying_env ''/tmp/report.body.tmp.0.b.html'') [''x''] (Some ''h'') None
            False None False example_world) = Inr ''%PDF''
   \<and> (ERROR, ''Error when trying to remove file /tmp/report.body.tmp.0.b.html'')
        \<in> set (logged (snd (run_wkhtmltopdf (denying_env ''/tmp/report.body.tmp.0.b.html'') [''x'']
                   (Some ''h'') None False None False example_world)))"
proof -
  have ok: "(0::int) = 0 \<or> (0::int) = 1" by simp
  have fails: "unlink_fails (denying_env ''/tmp/report.body.tmp.0.b.html'') example_output
        ''/tmp/report.body.tmp.0.b.html''"
    by (simp add: unlink_fails_def denying_env_def deny_only_def)
  have mem: "''/tmp/report.body.tmp.0.b.html'' \<in> set (temporary_files example_staged)"
    by (simp add: example_staged_def)
  note w = unlink_failure_logged_not_raised
      [OF example_staged_env(3) example_found(3) example_ran(2) ok example_output_pdf(1),
       of "''/tmp/report.body.tmp.0.b.html''"]
  from w mem fails have "(ERROR, ''Error when trying to remove file '' @ ''/tmp/report.body.tmp.0.b.html'')
        \<in> set (logged (snd (run_wkhtmltopdf (denying_env ''/tmp/report.body.tmp.0.b.html'') [''x'']
                   (Some ''h'') None False None False example_world)))"
    by blast
  with w fails example_staged_env(3) example_found(3) example_ran(2) example_output_pdf(1)
  show ?thesis by simp
qed

subsection \<open>C6: the value returned\<close>

text \<open>
  C6. The call returns \<open>content\<close> if and only if the return code is 0 or 1 and
  \<open>content\<close> is what the output file holds in the file system the subprocess left.
  The output file is the last argument of the command line; staging created it, empty.
\<close>

theorem returns_output_file_content:
  assumes "stage (gettempdir env) bodies header footer w = (Inr st, w1)"
    and "get_wkhtmltopdf_bin env = Inr bin"
    and "popen_communicate env
           (wkhtmltopdf_command bin
              (build_wkhtmltopdf_args env (get_paperformat env) landscape spa svs) st)
           (files w1) = Inr (out, err, rc, fs)"
  shows "(fst (run_wkhtmltopdf env bodies header footer landscape spa svs w) = Inr content
           \<longleftrightarrow> (rc = 0 \<or> rc = 1) \<and> fs (pdf_report_path st) = Some content)
    \<and> last (wkhtmltopdf_command bin
              (build_wkhtmltopdf_args env (get_paperformat env) landscape spa svs) st)
        = pdf_report_path st
    \<and> files w (pdf_report_path st) = None
    \<and> files w1 (pdf_report_path st) = Some []"
proof -
  have r: "fst (run_wkhtmltopdf env bodies header footer landscape spa svs w) = Inr content
           \<longleftrightarrow> (rc = 0 \<or> rc = 1) \<and> fs (pdf_report_path st) = Some content"
    unfolding run_result(1) [OF assms]
    by (auto split: sum.splits option.splits)
  have "files w (pdf_report_path st) = None"
    using stage_facts(1,4) [OF assms(1)] by (simp add: creates_def)
  with r stage_facts(6) [OF assms(1)] show ?thesis
    by (simp add: wkhtmltopdf_command_def)
qed

theorem returns_output_file_content_witness:
  "stage (gettempdir example_env) [''x''] (Some ''h'') None example_world
     = (Inr example_staged, example_staged_world)
   \<and> get_wkhtmltopdf_bin example_env = Inr ''/usr/bin/wkhtmltopdf''
   \<and> popen_communicate example_env
       (wkhtmltopdf_command ''/usr/bin/wkhtmltopdf''
          (build_wkhtmltopdf_args example_env (get_paperformat example_env) False None False)
          example_staged)
       (files example_staged_world) = Inr ([], [], 0, example_output)
   \<and> example_output (pdf_report_path example_staged) = Some ''%PDF''
   \<and> fst (run_wkhtmltopdf example_env [''x''] (Some ''h'') None False None False example_world)
       = Inr ''%PDF''"
  using returns_output_file_content
          [OF example_staged_env(1) example_found(1) example_ran(1), of "''%PDF''"]
        example_staged_env(1) example_found(1) example_ran(1) example_output_pdf(1)
  by simp

subsection \<open>C7: the body files and the command line\<close>



subsection \<open>C8: the optional header and footer\<close>



subsection \<open>C9: an empty header or footer\<close>

text \<open>
  C9. An empty header or footer (the empty bytes object) is treated as None is: the
  block of the header, and the block of the footer, leaves the lists and the world as
  they are, so no file is created and no flag is added, and the whole function does
  on an empty value what it does on None.
\<close>

theorem empty_header_footer_as_none:
  "run_wkhtmltopdf env bodies (Some []) footer landscape spa svs w
     = run_wkhtmltopdf env bodies None footer landscape spa svs w
   \<and> run_wkhtmltopdf env bodies header (Some []) landscape spa svs w
     = run_wkhtmltopdf env bodies header None landscape spa svs w
   \<and> stage_header dir (Some []) acc w = (Inr acc, w)
   \<and> stage_footer dir (Some []) acc w = (Inr acc, w)"
proof -
  have h: "stage_header d (Some []) a v = stage_header d None a v" for d a v
    by (simp add: stage_header_def)
  have f: "stage_footer d (Some []) a v = stage_footer d None a v" for d a v
    by (simp add: stage_footer_def)
  have "run_wkhtmltopdf env bodies (Some []) footer landscape spa svs w
          = run_wkhtmltopdf env bodies None footer landscape spa svs w"
    unfolding run_wkhtmltopdf_def stage_def h by simp
  moreover have "run_wkhtmltopdf env bodies header (Some []) landscape spa svs w
          = run_wkhtmltopdf env bodies header None landscape spa svs w"
    unfolding run_wkhtmltopdf_def stage_def f by simp
  ultimately show ?thesis
    by (simp add: stage_header_def stage_footer_def)
qed

subsection \<open>C10: the cleanup loop\<close>

text \<open>
  C10. The cleanup loop attempts the unlink of every file of the list, in the order of
  the list: it never raises; afterwards a file of the list is gone unless the system
  refused its unlink, whatever happened to the others; the ERROR records it adds are
  those of the files whose unlink failed, in the order of the list; and the loop over
  a list is the loop over its first part followed by the loop over the rest, so a
  failure in the first part does not stop the attempts on the rest.
\<close>

theorem cleanup_attempts_every_file:
  assumes "distinct tfs"
  shows "fst (cleanup env tfs w) = Inr ()
    \<and> (\<forall>f. files (snd (cleanup env tfs w)) f
            = (if f \<in> set tfs \<and> \<not> unlink_denied env f then None else files w f))
    \<and> logged (snd (cleanup env tfs w))
        = logged w @ map (\<lambda>f. (ERROR, ''Error when trying to remove file '' @ f))
                         (filter (unlink_fails env (files w)) tfs)
    \<and> (\<forall>xs ys. tfs = xs @ ys \<longrightarrow>
          snd (cleanup env tfs w) = snd (cleanup env ys (snd (cleanup env xs w))))"
  using assms
  by (simp add: cleanup_returns cleanup_files cleanup_logged cleanup_append)

theorem cleanup_attempts_every_file_witness:
  "distinct [''/tmp/a'', ''/tmp/b'', ''/tmp/c'']
   \<and> fst (cleanup (example_env\<lparr>unlink_denied := deny_only ''/tmp/a''\<rparr>)
             [''/tmp/a'', ''/tmp/b'', ''/tmp/c'']
             (example_world\<lparr>files := [''/tmp/a'' \<mapsto> ''1'', ''/tmp/c'' \<mapsto> ''3'']\<rparr>)) = Inr ()
   \<and> files (snd (cleanup (example_env\<lparr>unlink_denied := deny_only ''/tmp/a''\<rparr>)
             [''/tmp/a'', ''/tmp/b'', ''/tmp/c'']
             (example_world\<lparr>files := [''/tmp/a'' \<mapsto> ''1'', ''/tmp/c'' \<mapsto> ''3'']\<rparr>))) ''/tmp/c'' = None
   \<and> files (snd (cleanup (example_env\<lparr>unlink_denied := deny_only ''/tmp/a''\<rparr>)
             [''/tmp/a'', ''/tmp/b'', ''/tmp/c'']
             (example_world\<lparr>files := [''/tmp/a'' \<mapsto> ''1'', ''/tmp/c'' \<mapsto> ''3'']\<rparr>))) ''/tmp/a'' = Some ''1''
   \<and> logged (snd (cleanup (example_env\<lparr>unlink_denied := deny_only ''/tmp/a''\<rparr>)
             [''/tmp/a'', ''/tmp/b'', ''/tmp/c'']
             (example_world\<lparr>files := [''/tmp/a'' \<mapsto> ''1'', ''/tmp/c'' \<mapsto> ''3'']\<rparr>)))
       = [(ERROR, ''Error when trying to remove file /tmp/a''),
          (ERROR, ''Error when trying to remove file /tmp/b'')]"
proof -
  have d: "distinct [''/tmp/a'', ''/tmp/b'', ''/tmp/c'']" by simp
  show ?thesis
    using d cleanup_attempts_every_file [OF d,
        of "example_env\<lparr>unlink_denied := deny_only ''/tmp/a''\<rparr>"
           "example_world\<lparr>files := [''/tmp/a'' \<mapsto> ''1'', ''/tmp/c'' \<mapsto> ''3'']\<rparr>"]
    by (simp add: example_env_def example_world_def deny_only_def unlink_fails_def)
qed

end
